theory Spec2Isabelle
  imports Complex_Main
begin

section \<open>The ad player of \<^verbatim>\<open>src/public/script_audi.js\<close>\<close>

text \<open>
  The script defines one constructor, \<^verbatim>\<open>VpaidVideoPlayer\<close>, whose methods a wrapper
  calls, and inside \<^verbatim>\<open>startAd\<close> a closure \<^verbatim>\<open>createEvent\<close> that holds the tracking
  state. Both are modelled by explicit state passing: a method takes the state and returns
  the state it leaves behind together with an outcome, \<open>None\<close> when it returns normally
  and \<open>Some e\<close> when it throws \<open>e\<close>. The state is returned in both cases, since
  assignments made before a throw stay in effect.

  Conventions of the model.
  \<^item> An object used as a dictionary is a map over its own keys; the names every object
    inherits from its prototype are not part of the model.
  \<^item> A callback handed over by the wrapper is an opaque identifier; calling it appends
    an entry to a trace. Callbacks are taken to return normally and not to call back
    into the player.
  \<^item> A source name that ends in an underscore is written without it.
  \<^item> Numbers that come from the media element may be \<open>NaN\<close> or infinite; finite ones
    are rationals, so arithmetic on them is exact. The source computes in double
    precision: on clock readings, which are whole milliseconds, the two agree; a
    percentage can differ from the exact one in its last bit.
  \<^item> The page that embeds the script is taken to define no global variable of its own
    that the script reads by name.
\<close>

subsection \<open>Values and errors\<close>

datatype js_error = TypeError | ReferenceError | SyntaxError | IndexSizeError

datatype jsnum = Num rat | PosInf | NegInf | NaN

type_synonym outcome = "js_error option"

text \<open>Sequencing of two statements: the second runs only if the first did not throw.\<close>

definition and_then :: "'s \<times> outcome \<Rightarrow> ('s \<Rightarrow> 's \<times> outcome) \<Rightarrow> 's \<times> outcome" where
  "and_then r f = (case r of (s, None) \<Rightarrow> f s | (s, Some e) \<Rightarrow> (s, Some e))"


text \<open>\<^verbatim>\<open>a / b\<close> for finite operands: division by zero gives an infinity, or \<open>NaN\<close>
  for \<^verbatim>\<open>0 / 0\<close>.\<close>

definition js_div :: "rat \<Rightarrow> rat \<Rightarrow> jsnum" where
  "js_div a b =
     (if b \<noteq> 0 then Num (a / b)
      else if a = 0 then NaN else if 0 < a then PosInf else NegInf)"



subsection \<open>The player's state\<close>

text \<open>A slot of \<^verbatim>\<open>eventsCallbacks_\<close>: a key that is present holds either \<^verbatim>\<open>null\<close>
  (written by \<^verbatim>\<open>unsubscribe\<close>) or a bound function.\<close>

datatype callback_slot = Null | Fn nat

record attribute_store =
  companions :: string
  desiredBitrate :: rat
  duration :: jsnum
  expanded :: bool
  height :: rat
  icons :: bool
  linear :: bool
  remainingTime :: jsnum
  skippableState :: bool
  viewMode :: string
  width :: rat
  volume :: jsnum

text \<open>The media element, as far as the script reads and writes it. \<open>canPlayType\<close> is
  the element's own capability probe; it answers \<^verbatim>\<open>""\<close>, \<^verbatim>\<open>"maybe"\<close> or
  \<^verbatim>\<open>"probably"\<close>.\<close>

record video_element =
  v_src :: "string option"
  v_currentTime :: rat
  v_duration :: jsnum
  v_volume :: rat
  v_paused :: bool
  v_width :: "rat option"
  v_height :: "rat option"
  canPlayType :: "string \<Rightarrow> string"

record media_candidate =
  m_url :: string
  mimetype :: string

record macro =
  macro_url :: string
  timestamp :: string
  gClick :: string

text \<open>The creative payload after \<^verbatim>\<open>JSON.parse\<close>. A field that the payload may omit
  is an option. \<open>poi\<close> stands for the decoded and parsed point-of-interest blob:
  \<open>None\<close> when the payload has no parsable blob (\<^verbatim>\<open>JSON.parse\<close> throws), otherwise
  the \<^verbatim>\<open>id\<close> it carries, if any.\<close>

record ad_parameters =
  videos :: "media_candidate list option"
  poi :: "string option option"
  config :: "macro option"
  cc :: "string option"

record player =
  slot :: bool
  videoSlot :: "video_element option"
  eventsCallbacks :: "string \<rightharpoonup> callback_slot"
  attributes :: attribute_store
  intervalId :: "nat option"
  running_intervals :: "nat list"
  next_timer :: nat
  lastQuartileIndex :: nat
  parameters :: ad_parameters
  trace :: "(string \<times> nat) list"

definition quartileEvents :: "(string \<times> rat) list" where
  "quartileEvents =
     [(''AdVideoStart'', 0), (''AdVideoFirstQuartile'', 25), (''AdVideoMidpoint'', 50),
      (''AdVideoThirdQuartile'', 75), (''AdVideoComplete'', 100)]"

text \<open>The state a constructor call leaves: the object literal of defaults. Timer ids
  are handed out by the browser, counting from 1.\<close>

definition VpaidVideoPlayer :: player where
  "VpaidVideoPlayer =
     \<lparr>slot = False, videoSlot = None, eventsCallbacks = Map.empty,
      attributes = \<lparr>companions = '''', desiredBitrate = 256, duration = Num 30,
        expanded = False, height = 50, icons = False, linear = True,
        remainingTime = Num 13, skippableState = False, viewMode = ''normal'',
        width = 50, volume = Num 1\<rparr>,
      intervalId = None, running_intervals = [], next_timer = 1,
      lastQuartileIndex = 0,
      parameters = \<lparr>videos = None, poi = None, config = None, cc = None\<rparr>,
      trace = []\<rparr>"

subsection \<open>Subscribing and dispatching\<close>

definition subscribe :: "nat \<Rightarrow> string \<Rightarrow> player \<Rightarrow> player" where
  "subscribe aCallback eventName p =
     p\<lparr>eventsCallbacks := (eventsCallbacks p)(eventName \<mapsto> Fn aCallback)\<rparr>"

definition unsubscribe :: "string \<Rightarrow> player \<Rightarrow> player" where
  "unsubscribe eventName p =
     p\<lparr>eventsCallbacks := (eventsCallbacks p)(eventName \<mapsto> Null)\<rparr>"

text \<open>Calling the value stored under a key: a function is called, anything else
  (\<^verbatim>\<open>undefined\<close> for a missing key, \<^verbatim>\<open>null\<close>) is not callable.\<close>

definition call_slot :: "string \<Rightarrow> player \<Rightarrow> player \<times> outcome" where
  "call_slot eventType p =
     (case eventsCallbacks p eventType of
        Some (Fn f) \<Rightarrow> (p\<lparr>trace := trace p @ [(eventType, f)]\<rparr>, None)
      | Some Null \<Rightarrow> (p, Some TypeError)
      | None \<Rightarrow> (p, Some TypeError))"

text \<open>\<^verbatim>\<open>callEvent_\<close>: the test is \<^verbatim>\<open>eventType in this.eventsCallbacks_\<close>, which asks
  for the key and not for what it holds.\<close>

definition callEvent :: "string \<Rightarrow> player \<Rightarrow> player \<times> outcome" where
  "callEvent eventType p =
     (if eventType \<in> dom (eventsCallbacks p) then call_slot eventType p else (p, None))"

subsection \<open>Quartile tracking\<close>





text \<open>The quartile callbacks that have been called so far, in order.\<close>

definition quartile_calls :: "player \<Rightarrow> string list" where
  "quartile_calls p = filter (\<lambda>e. e \<in> set (map fst quartileEvents)) (map fst (trace p))"

subsection \<open>Choosing the media source\<close>

text \<open>The loop of \<^verbatim>\<open>updateVideoSlot_\<close>: the first candidate the element can play becomes
  the source and ends the loop. The result says whether a source was found.\<close>

fun select_source :: "video_element \<Rightarrow> media_candidate list \<Rightarrow> video_element \<times> bool" where
  "select_source v [] = (v, False)"
| "select_source v (m # ms) =
     (if canPlayType v (mimetype m) \<noteq> '''' then (v\<lparr>v_src := Some (m_url m)\<rparr>, True)
      else select_source v ms)"

text \<open>\<^verbatim>\<open>updateVideoSlot_\<close>. \<open>created\<close> is the element \<^verbatim>\<open>document.createElement\<close>
  would hand out; it is stored and then appended to the slot, which must be there.\<close>

definition updateVideoSlot :: "video_element \<Rightarrow> player \<Rightarrow> player \<times> outcome" where
  "updateVideoSlot created p =
     and_then
       (if videoSlot p = None
        then (p\<lparr>videoSlot := Some created\<rparr>, if slot p then None else Some TypeError)
        else (p, None))
       (\<lambda>p. case videoSlot p of
               None \<Rightarrow> (p, Some TypeError)
             | Some v \<Rightarrow>
                 (case select_source v (case videos (parameters p) of None \<Rightarrow> [] | Some vs \<Rightarrow> vs) of
                    (v', foundSource) \<Rightarrow>
                      if \<not> foundSource then callEvent ''AdError'' (p\<lparr>videoSlot := Some v'\<rparr>)
                      else (p\<lparr>videoSlot := Some v'\<rparr>, None)))"

record environmentVars =
  env_slot :: bool
  env_videoSlot :: "video_element option"

text \<open>\<^verbatim>\<open>initAd\<close>. \<open>creativeData\<close> is the result of parsing the \<^verbatim>\<open>AdParameters\<close>
  string, \<open>None\<close> when it does not parse. Registering the three listeners on the media
  element changes nothing the model keeps.\<close>

definition initAd ::
  "rat \<Rightarrow> rat \<Rightarrow> string \<Rightarrow> rat \<Rightarrow> ad_parameters option \<Rightarrow> environmentVars \<Rightarrow>
     video_element \<Rightarrow> player \<Rightarrow> player \<times> outcome" where
  "initAd w h vm bitrate creativeData env created p =
     (let p1 = p\<lparr>attributes := (attributes p)
                  \<lparr>width := w, height := h, viewMode := vm, desiredBitrate := bitrate\<rparr>,
                slot := env_slot env, videoSlot := env_videoSlot env\<rparr>
      in case creativeData of
           None \<Rightarrow> (p1, Some SyntaxError)
         | Some ps \<Rightarrow>
             and_then (updateVideoSlot created (p1\<lparr>parameters := ps\<rparr>))
               (callEvent ''AdLoaded''))"

subsection \<open>Volume\<close>




subsection \<open>The other lifecycle methods\<close>













subsection \<open>The tracking session: the closure of \<^verbatim>\<open>createEvent\<close>\<close>

text \<open>
  The variables \<^verbatim>\<open>createEvent\<close> declares are the fields of one record; the functions
  it defines take the record and return it. A parameter object is the list of its keys
  and values in insertion order, the order in which the query string lists them. The
  text of a tracking address (the event name spliced into the tracker address, the
  parameters percent-encoded behind it) is kept as a value: the name and the parameters.
  \<open>now\<close> is the clock reading of \<^verbatim>\<open>new Date()\<close>, in milliseconds.
\<close>

datatype jsval = N int | S string

type_synonym obj = "(string \<times> jsval) list"

fun obj_set :: "string \<Rightarrow> jsval \<Rightarrow> obj \<Rightarrow> obj" where
  "obj_set k v [] = [(k, v)]"
| "obj_set k v (kv # kvs) = (if fst kv = k then (k, v) # kvs else kv # obj_set k v kvs)"

fun mergeTwoObjects :: "obj \<Rightarrow> obj \<Rightarrow> obj" where
  "mergeTwoObjects toObject [] = toObject"
| "mergeTwoObjects toObject (kv # fromObject) =
     mergeTwoObjects (obj_set (fst kv) (snd kv) toObject) fromObject"

text \<open>An entry of \<^verbatim>\<open>eventAlreadyFired\<close>: the event type of the first firing and, for
  interaction events and the click, the counter \<^verbatim>\<open>ni\<close>.\<close>

record fired =
  et :: string
  ni :: "nat option"

definition fired_obj :: "fired \<Rightarrow> obj" where
  "fired_obj r = (''et'', S (et r)) # (case ni r of None \<Rightarrow> [] | Some k \<Rightarrow> [(''ni'', N (int k))])"

datatype pixel = EventPixel string obj | UrlPixel string

record session =
  allowRedirect :: bool
  alreadyClicked :: bool
  pos_interact :: string
  constant_params :: obj
  eventAlreadyFired :: "string \<rightharpoonup> fired"
  timeStart :: int
  screenX :: int
  screenY :: int
  config_macro :: macro
  aElement :: bool
  pixels :: "pixel list"

text \<open>\<^verbatim>\<open>event.loadPixel\<close>: one request leaves; nothing comes back.\<close>

definition loadPixel :: "pixel \<Rightarrow> session \<Rightarrow> session" where
  "loadPixel px s = s\<lparr>pixels := pixels s @ [px]\<rparr>"

text \<open>The elapsed time of \<^verbatim>\<open>addParams\<close>: the difference of two clock readings divided
  by 1000, cut at 3000, then \<^verbatim>\<open>Math.round\<close>, which rounds halves up.\<close>

definition elapsed_seconds :: "int \<Rightarrow> int \<Rightarrow> int" where
  "elapsed_seconds start now =
     (let t = (of_int (now - start) :: rat) / 1000;
          t = (if 3000 < t then 3000 else t)
      in \<lfloor>t + 1 / 2\<rfloor>)"

definition addParams :: "string \<Rightarrow> obj \<Rightarrow> int \<Rightarrow> session \<Rightarrow> obj" where
  "addParams eventType oParams now s =
     (let o1 = obj_set ''t'' (N (elapsed_seconds (timeStart s) now)) oParams;
          o2 = obj_set ''et'' (S eventType) o1;
          o3 = (if eventType = ''i'' then obj_set ''p'' (S (pos_interact s)) o2 else o2)
      in mergeTwoObjects o3 (constant_params s))"

text \<open>The condition under which \<^verbatim>\<open>event.trigger\<close> sends anything.\<close>

definition trigger_allowed :: "string \<Rightarrow> session \<Rightarrow> bool" where
  "trigger_allowed eventName s =
     ((eventName = ''click'' \<and> \<not> alreadyClicked s) \<or>
      (eventName \<noteq> ''click'' \<and>
         (eventName \<notin> dom (eventAlreadyFired s) \<or>
          (case eventAlreadyFired s eventName of
             None \<Rightarrow> False
           | Some r \<Rightarrow> et r = ''i'' \<and> (case ni r of None \<Rightarrow> False | Some k \<Rightarrow> k < 30)))))"

text \<open>\<^verbatim>\<open>eventType || "t"\<close>: an event type that is missing or empty stands for
  \<^verbatim>\<open>"t"\<close>.\<close>

definition default_type :: "string option \<Rightarrow> string" where
  "default_type eventType0 =
     (case eventType0 of None \<Rightarrow> ''t'' | Some e \<Rightarrow> if e = [] then ''t'' else e)"

text \<open>\<^verbatim>\<open>event.trigger\<close>. The counter of an entry that has none would become \<open>NaN\<close> under \<^verbatim>\<open>++\<close>; it stays
  absent here, and both compare false with 30.\<close>

definition trigger :: "string \<Rightarrow> string option \<Rightarrow> obj \<Rightarrow> int \<Rightarrow> session \<Rightarrow> session" where
  "trigger eventName eventType0 params now s =
     (let eventType = default_type eventType0
      in if trigger_allowed eventName s
         then
           (case eventAlreadyFired s eventName of
              None \<Rightarrow>
                let r = \<lparr>et = eventType,
                         ni = (if eventName = ''click'' then Some 30
                               else if eventType = ''i'' then Some 1 else None)\<rparr>;
                    s1 = s\<lparr>eventAlreadyFired := (eventAlreadyFired s)(eventName \<mapsto> r),
                           alreadyClicked := (if eventName = ''click'' then True
                                              else alreadyClicked s)\<rparr>
                in loadPixel (EventPixel eventName
                     (addParams eventType (mergeTwoObjects params (fired_obj r)) now s1)) s1
            | Some r0 \<Rightarrow>
                let r = r0\<lparr>ni := map_option Suc (ni r0)\<rparr>;
                    s1 = s\<lparr>eventAlreadyFired := (eventAlreadyFired s)(eventName \<mapsto> r)\<rparr>
                in loadPixel (EventPixel eventName
                     (addParams eventType (mergeTwoObjects params (fired_obj r)) now s1)) s1)
         else s)"

text \<open>The listener \<^verbatim>\<open>event.clickCustom\<close> would register, \<^verbatim>\<open>triggerRedirection\<close>. Its
  second statement reads the identifier \<^verbatim>\<open>addParams\<close>. The names below are the ones
  bound where the listener is written, innermost scope first: the listener's own, those
  of \<^verbatim>\<open>eventClickCustom\<close>, of \<^verbatim>\<open>createEvent\<close>, of \<^verbatim>\<open>startAd\<close> and of the script. (The
  name of a named function expression, as in
  \<^verbatim>\<open>event.addParams = function addParams(...)\<close>, is bound inside that function only.)
  The page around the script is taken not to define the name either.\<close>

definition names_in_scope :: "string list" where
  "names_in_scope =
     [''triggerRedirection'', ''arguments'',
      ''eventClickCustom'', ''url'', ''cssElement'', ''params'', ''clickPixel'',
      ''config'', ''allowRedirect'', ''aElement'', ''event'', ''trackerClickUrl'',
      ''trackerEventUrl'', ''urlRedirectionDashboard'', ''alreadyClicked'', ''pos_interact'',
      ''constant_params'', ''eventAlreadyFired'', ''nbCallsInUrl'', ''timeStart'', ''screenX'',
      ''screenY'', ''mergeTwoObjects'', ''updateQueryStringParameter'', ''captureInteraction'',
      ''getPosition'', ''handleRedirection'', ''getParameterByName'', ''init'', ''init_load'',
      ''creativeDataAdm'', ''poiList'', ''POIAdm'', ''poiId'', ''audioToUse'', ''rndInt'',
      ''changeAudioByPoi'', ''videoFV'', ''configAdm'', ''ccCD'', ''createEvent'', ''events'',
      ''VpaidVideoPlayer'', ''getVPAIDAd'']"

definition triggerRedirection :: "session \<Rightarrow> session \<times> outcome" where
  "triggerRedirection s =
     (if ''addParams'' \<in> set names_in_scope
      then (if aElement s then (s\<lparr>allowRedirect := True\<rparr>, None) else (s, Some TypeError))
      else (s, Some ReferenceError))"

text \<open>Interaction events. A field the event does not have is \<open>None\<close>.\<close>

record touch =
  t_clientX :: "rat option"
  t_clientY :: "rat option"

record dom_event =
  clientX :: "rat option"
  clientY :: "rat option"
  targetTouches :: "touch list option"

text \<open>\<^verbatim>\<open>evt.clientX || evt.targetTouches[0].clientX\<close>: the right-hand side is evaluated
  when the left one is missing or zero, and reading a property of a first touch that is
  not there throws.\<close>

definition coordinate ::
  "rat option \<Rightarrow> touch list option \<Rightarrow> (touch \<Rightarrow> rat option) \<Rightarrow> js_error + rat option" where
  "coordinate c touches sel =
     (case c of
        Some x \<Rightarrow> if x \<noteq> 0 then Inr (Some x) else
          (case touches of None \<Rightarrow> Inl TypeError | Some [] \<Rightarrow> Inl TypeError
           | Some (t # ts) \<Rightarrow> Inr (sel t))
      | None \<Rightarrow>
          (case touches of None \<Rightarrow> Inl TypeError | Some [] \<Rightarrow> Inl TypeError
           | Some (t # ts) \<Rightarrow> Inr (sel t)))"

fun show_nat :: "nat \<Rightarrow> string" where
  "show_nat n =
     (if n < 10 then [''0123456789'' ! n] else show_nat (n div 10) @ [''0123456789'' ! (n mod 10)])"

definition show_int :: "int \<Rightarrow> string" where
  "show_int i = (if i < 0 then CHR ''-'' # show_nat (nat (- i)) else show_nat (nat i))"

text \<open>\<^verbatim>\<open>Math.round(pos / screen * 100)\<close>, as text.\<close>

definition percent_text :: "rat \<Rightarrow> int \<Rightarrow> string" where
  "percent_text pos screen =
     (case js_div pos (of_int screen) of
        Num q \<Rightarrow> show_int \<lfloor>q * 100 + 1 / 2\<rfloor>
      | PosInf \<Rightarrow> ''Infinity''
      | NegInf \<Rightarrow> ''-Infinity''
      | NaN \<Rightarrow> ''NaN'')"

definition getPosition :: "dom_event \<Rightarrow> session \<Rightarrow> session \<times> outcome" where
  "getPosition evt s =
     (case coordinate (clientX evt) (targetTouches evt) t_clientX of
        Inl e \<Rightarrow> (s, Some e)
      | Inr xPos \<Rightarrow>
          (case coordinate (clientY evt) (targetTouches evt) t_clientY of
             Inl e \<Rightarrow> (s, Some e)
           | Inr yPos \<Rightarrow>
               (case (xPos, yPos) of
                  (Some x, Some y) \<Rightarrow>
                    (s\<lparr>pos_interact :=
                         percent_text x (screenX s) @ ''_'' @ percent_text y (screenY s)\<rparr>, None)
                | _ \<Rightarrow> (s\<lparr>pos_interact := ''0_0''\<rparr>, None))))"

text \<open>\<^verbatim>\<open>a.indexOf(b) === -1\<close> is the negation of \<open>contains b a\<close>.\<close>

fun contains :: "string \<Rightarrow> string \<Rightarrow> bool" where
  "contains pat [] = (pat = [])"
| "contains pat (c # cs) = (take (length pat) (c # cs) = pat \<or> contains pat cs)"

text \<open>\<^verbatim>\<open>handleRedirection\<close>, the click listener of the overlay anchor. The second
  component says whether \<^verbatim>\<open>preventDefault\<close> was called.\<close>

definition handleRedirection :: "session \<Rightarrow> session \<times> bool" where
  "handleRedirection s =
     (if allowRedirect s \<and> \<not> alreadyClicked s
      then
        (let s1 = s\<lparr>alreadyClicked := True, allowRedirect := False\<rparr>
         in if \<not> contains ''CLICK_URL_UNESC'' (gClick (config_macro s))
            then (loadPixel (UrlPixel (gClick (config_macro s))) s1, False)
            else (s1, False))
      else (s, True))"

text \<open>\<^verbatim>\<open>init_load\<close>, registered for \<^verbatim>\<open>DOMContentLoaded\<close>: it attaches the three
  position listeners, stores the screen size as constant parameters, finds or creates
  the anchor and attaches \<^verbatim>\<open>handleRedirection\<close> to it.\<close>

definition init_load :: "session \<Rightarrow> session" where
  "init_load s =
     s\<lparr>constant_params :=
         mergeTwoObjects (constant_params s) [(''w'', N (screenX s)), (''h'', N (screenY s))],
       aElement := True\<rparr>"

text \<open>\<^verbatim>\<open>createEvent\<close>. Reading \<^verbatim>\<open>config.macro.url\<close> throws when the payload carries no
  configuration. \<^verbatim>\<open>init\<close> only derives the event address from the click address.\<close>

definition createEvent :: "macro option \<Rightarrow> int \<Rightarrow> int \<Rightarrow> int \<Rightarrow> js_error + session" where
  "createEvent cfg now sx sy =
     (case cfg of
        None \<Rightarrow> Inl TypeError
      | Some m \<Rightarrow>
          Inr \<lparr>allowRedirect = False, alreadyClicked = False, pos_interact = ''1_1'',
               constant_params = [], eventAlreadyFired = Map.empty, timeStart = now,
               screenX = sx, screenY = sy, config_macro = m, aElement = False,
               pixels = []\<rparr>)"

text \<open>What can happen to a session once it exists: a call of \<^verbatim>\<open>trigger\<close>, the page
  finishing to load, an interaction anywhere on the page, a click on the anchor (which
  is an interaction too), and a click on an element armed by \<^verbatim>\<open>clickCustom\<close>. A
  listener runs only once it is attached, and one that throws leaves the others alone.\<close>

datatype session_op =
    Trigger string "string option" obj int
  | DOMContentLoaded
  | Interaction dom_event
  | AnchorClick dom_event
  | ArmingClick

fun session_step :: "session \<Rightarrow> session_op \<Rightarrow> session" where
  "session_step s (Trigger eventName eventType params now) =
     trigger eventName eventType params now s"
| "session_step s DOMContentLoaded = init_load s"
| "session_step s (Interaction evt) = (if aElement s then fst (getPosition evt s) else s)"
| "session_step s (AnchorClick evt) =
     (if aElement s then fst (handleRedirection (fst (getPosition evt s))) else s)"
| "session_step s ArmingClick = fst (triggerRedirection s)"

definition run_session :: "session \<Rightarrow> session_op list \<Rightarrow> session" where
  "run_session s ops = foldl session_step s ops"

text \<open>Whether a call of \<^verbatim>\<open>trigger\<close> sends a pixel.\<close>

definition sends :: "string \<Rightarrow> string option \<Rightarrow> obj \<Rightarrow> int \<Rightarrow> session \<Rightarrow> bool" where
  "sends eventName eventType params now s =
     (length (pixels (trigger eventName eventType params now s)) = Suc (length (pixels s)))"




text \<open>The confirmation pixels sent so far.\<close>

definition confirmations :: "session \<Rightarrow> pixel list" where
  "confirmations s = filter (\<lambda>px. case px of UrlPixel u \<Rightarrow> True | EventPixel n q \<Rightarrow> False) (pixels s)"

subsection \<open>Starting the ad\<close>

text \<open>The table \<^verbatim>\<open>poiList\<close> of \<^verbatim>\<open>startAd\<close> has 144 entries, each with a city
  \<^verbatim>\<open>c\<close>, an identifier \<^verbatim>\<open>poi\<close> and three addresses \<^verbatim>\<open>lom1\<close>, \<^verbatim>\<open>lom2\<close>,
  \<^verbatim>\<open>lom3\<close>. In the source all 432 addresses are the same text, so the table is written
  as its 144 pairs of city and identifier, in source order, and expanded from them.
  The fields \<^verbatim>\<open>c\<close> and \<^verbatim>\<open>poi\<close> of an entry are \<open>e_c\<close> and \<open>e_poi\<close>.\<close>

record poi_entry =
  e_c :: string
  e_poi :: string
  lom1 :: string
  lom2 :: string
  lom3 :: string

definition lom_address :: string where
  "lom_address = ''https://assets.adotmob.com/Audi/111023/audio/AGEN+-+AUDI+JMA+A3+TFSIE+25%2B5+LOM1+29.09.23.mp3''"

definition poi_rows :: "(string \<times> string) list" where
  "poi_rows =
     [(''AGEN'', ''spb7mc5cxgfp''), (''AIX EN PROVENCE'', ''speze074p4bt''),
      (''ALBI'', ''spc9b9qetsuy''), (''ALENCON'', ''u085dennpuq8''),
      (''ANGERS'', ''gbrw1fjfn2qt''), (''ANGOULEME'', ''u005uhg9gw0s''),
      (''ANNECY'', ''u0hkccc4tj6k''), (''ANNEMASSE'', ''u0hqydzb34j2''),
      (''ARLES'', ''spg29se8wsw0''), (''AUBAGNE'', ''speyr2fjgvx3''),
      (''AUXERRE'', ''u06xcp594zeu''), (''AVIGNON'', ''spg3yhrm1pvv''),
      (''BASTIA'', ''spwdqtzu9zgh''), (''BAYONNE'', ''ezwzjzxwem1q''),
      (''BEAUVAIS'', ''u0c9201gzs5n''), (''BELFORT'', ''u0kzh880cyk3''),
      (''BESANCON'', ''u0khx6gcfyhy''), (''BEZIERS'', ''spdqd5ke9yew''),
      (''BLOIS'', ''u02yyk2344nm''), (''BORDEAUX'', ''ezzxk832b5xr''),
      (''BORDEAUX'', ''ezzx02hqdf66''), (''BOULOGNE SUR MER'', ''u110kskk4fh1''),
      (''BOURG EN BRESSE'', ''u05wxfrztdw3''), (''BOURGES'', ''u03sn12y6n4u''),
      (''BOURGOIN JALLIEU'', ''u05erdv9xr70''), (''BREST'', ''gbsg6mc3xzyr''),
      (''BRIE COMTE ROBERT'', ''u09v51v66rb8''), (''BRIVE LA GAILLARDE'', ''u010c6ruuger''),
      (''BRUAY LA BUISSIERE'', ''u0cz68zv5p5u''), (''CAEN'', ''gbxz86ugjhtv''),
      (''CANNES'', ''spubne6g0svu''), (''CARCASSONNE'', ''sp9tud85qr61''),
      (''CASTRES'', ''sp9xfpmn0672''), (''CESSY'', ''u0hr6n6ptbsg''),
      (''CHALON SUR SAONE'', ''u076ndj35ukn''), (''CHAMBERY'', ''u0h5mzmbbkvk''),
      (''CHAMBOURCY'', ''u09qnx4gyseh''), (''CHANGE'', ''u0952ynqfk6m''),
      (''CHARTRES'', ''u034pn2kcdnr''), (''CHATEAUROUX'', ''u0e9t44u4gsc''),
      (''CHAUMONT'', ''gbr7e1w2we6d''), (''CHOLET'', ''u04hr92fm2zu''),
      (''CLERMONT FERRAND'', ''u0t1xvv47f1q''), (''COLMAR'', ''u0ccp4743pm8''),
      (''COMPIEGNE'', ''u0cb0490424f''), (''CREIL'', ''ezz0z0wgmer8''),
      (''DAX'', ''u07t41nzps3q''), (''DIJON'', ''u0fnquts8kez''), (''DOUAI'', ''u08vq9h4npbm''),
      (''DREUX'', ''u11dm8wbr989''), (''DUNKERQUE'', ''u0sd5p05xm6r''),
      (''EPINAL'', ''u08ygj13uywd''), (''EVREUX'', ''u09grp0k9wv2''),
      (''FONTAINEBLEAU'', ''spsz0mfehnn6''), (''FREJUS'', ''spume42hvv5x''),
      (''GAP'', ''u0h0cgw5puz1''), (''GRENOBLE'', ''u0tt9dcwv33v''),
      (''HAGUENAU'', ''u11b96mx6wsb''), (''HAZEBROUCK'', ''gbqcz97u1h98''),
      (''LA ROCHE SUR YON'', ''gbpnw01cjg4k''), (''LA ROCHELLE'', ''gbtt1zee3zkn''),
      (''LANNION'', ''u0fd51zexqbr''), (''LAON'', ''gbx3wfwd2v42''),
      (''Le Havre'', ''u0b1e6kmwz1h''), (''LE MANS'', ''u080v1rzbnbq''),
      (''LE PUY EN VELAY'', ''u04b645v4pd4''), (''LENS'', ''u0cyxzn8mn09''),
      (''LES ULIS'', ''u09scvq45sk6''), (''LILLE'', ''u140p54kuxev''),
      (''LIMOGES'', ''u00vj16yfqp3''), (''LIMONEST'', ''u05ksd6wufep''),
      (''LONS LE SAUNIER'', ''u07cx0c7td5e''), (''LORIENT'', ''gbmxu48c137k''),
      (''LYON'', ''u05kn6hkpbrs''), (''MACON'', ''u05rm6hhqjz9''),
      (''MARNE LA VALLEE'', ''u09vuy8sw8r5''), (''MARSEILLE'', ''speyk1nmw3qf''),
      (''MEAUX'', ''u0dn3kng2bkz''), (''MELUN'', ''u09uk18vdgk5''),
      (''METZ'', ''u0sr5jfpjxpu''), (''MONACO'', ''spv2b8y2y2fd''),
      (''MONT DE MARSAN'', ''ezz9vuh05t43''), (''MONTARGIS'', ''u09by5xmrtft''),
      (''MONTAUBAN'', ''spbfq2hns1b3''), (''MONTIGNY LE BRETONNE'', ''u09mmz52w1kt''),
      (''MONTPELLIER'', ''spdzbjj456sg''), (''MONTROUGE'', ''u09tszm1get1''),
      (''MORLAIX'', ''gbtk262p2160''), (''MULHOUSE'', ''u0mpzcvcxt4h''),
      (''NANCY'', ''u0skgxbm0u4w''), (''NANTES'', ''gbqug4fkbctq''),
      (''NARBONNE'', ''spdjefvu6wr5''), (''NEVERS'', ''u065r49z3v5q''),
      (''NICE'', ''spv0t4wqznfv''), (''NICE'', ''spv0ech3fd2j''), (''NIMES'', ''spg168jkp49n''),
      (''ORLEANS'', ''u092ejjv8zr4''), (''PAMIERS'', ''sp9jjp7w2c1n''),
      (''PARIS'', ''u09tyu2ceec2''), (''PARIS 15'', ''u09tu4vy0h01''),
      (''PARIS 16'', ''u09tg6gmtqn3''), (''PARIS 17'', ''u09wh6svjbhc''),
      (''PAU'', ''ezxwqp00d3kc''), (''PERIGUEUX'', ''u0094jp8m8d9''),
      (''PERPIGNAN'', ''spd4cbhqe0nn''), (''POITIERS'', ''u020z48y1pvr''),
      (''PONTARLIER'', ''u0kdbk1fu9dk''), (''PONTOISE'', ''u09qzrguvryd''),
      (''QUIMPER'', ''gbt0unvgwp6y''), (''REIMS'', ''u0fbhgjgr7er''),
      (''RENNES'', ''gbwcejnqdz47''), (''RIVERY'', ''u0cevq1jhwz0''),
      (''ROANNE'', ''u04vv1sv81g7''), (''RODEZ'', ''spcu3yk02cc2''),
      (''ROISSY EN FRANCE'', ''u09y9r7w9pxf''), (''ROUEN'', ''u0bc23tp699g''),
      (''ROYAN'', ''gbp7bbkhcd9r''), (''RUEIL MALMAISON'', ''u09w1g5234ts''),
      (''SAINT MALO'', ''gbw5cy9m2zty''), (''SAINT NAZAIRE'', ''u054etxv57kd''),
      (''SAINT OUEN'', ''gbxpr60j3jt4''), (''SAINT VICTORET'', ''gbwsdg3xdnuu''),
      (''SARREGUEMINES'', ''u09v8m4kfspq''), (''ST BRIEUC'', ''gbqmnqcmkm8y''),
      (''ST MAUR DES FOSSES'', ''u09wjr2c4h7m''), (''ST PRIEST EN JAREZ'', ''spexp042nmvf''),
      (''STLO'', ''u0tp3kxf7h30''), (''STRASBOURG'', ''u0tkxg5tkudn''),
      (''TARBES'', ''sp8jcgyubw7r''), (''THIONVILLE'', ''u0u2snt3jz0s''),
      (''TOULON'', ''spsm3htxnkj5''), (''TOULOUSE'', ''sp9pdf7zp6hg''),
      (''TOULOUSE'', ''spc00x9x1vms''), (''TOURS'', ''u02mz4kxdy31''),
      (''TROYES'', ''u0dfs5qrqzwm''), (''VALENCE'', ''spgx84jwbrh3''),
      (''VALENCIENNES'', ''u0fw8v2g6yr6''), (''VANNES'', ''gbqp0tg83kdk''),
      (''VELIZY VILLACOUBLAY'', ''u09t98r9xhex''), (''VESOUL'', ''u0krh06e0gc7''),
      (''VICHY'', ''u04qmdyjbs8u''), (''VILLEFRANCHE SUR SAONE'', ''u05meuv2mnhd''),
      (''VIRE'', ''gbxmupekgu50''), (''VIRY CHATILLON'', ''u09syjwph181'')]"

definition poiList :: "poi_entry list" where
  "poiList =
     map (\<lambda>row. \<lparr>e_c = fst row, e_poi = snd row, lom1 = lom_address, lom2 = lom_address,
                  lom3 = lom_address\<rparr>) poi_rows"

text \<open>\<^verbatim>\<open>elem["lom" + rndInt]\<close>: a table entry has the three fields and no other.\<close>

definition lom :: "poi_entry \<Rightarrow> nat \<Rightarrow> string option" where
  "lom elem rndInt =
     (if rndInt = 1 then Some (lom1 elem) else if rndInt = 2 then Some (lom2 elem)
      else if rndInt = 3 then Some (lom3 elem) else None)"

text \<open>\<^verbatim>\<open>changeAudioByPoi\<close> walks the whole table and assigns \<^verbatim>\<open>audioToUse\<close> at every
  entry whose identifier equals the payload's; the variable starts out undefined.\<close>

fun changeAudioByPoi ::
  "poi_entry list \<Rightarrow> string option \<Rightarrow> nat \<Rightarrow> string option \<Rightarrow> string option" where
  "changeAudioByPoi [] poiId rndInt audioToUse = audioToUse"
| "changeAudioByPoi (elem # rest) poiId rndInt audioToUse =
     changeAudioByPoi rest poiId rndInt
       (if Some (e_poi elem) = poiId then lom elem rndInt else audioToUse)"

text \<open>\<^verbatim>\<open>setAttribute('src', audioToUse)\<close>: an attribute value is text, and the text of
  \<^verbatim>\<open>undefined\<close> is \<^verbatim>\<open>"undefined"\<close>.\<close>

definition attribute_text :: "string option \<Rightarrow> string" where
  "attribute_text a = (case a of None \<Rightarrow> ''undefined'' | Some u \<Rightarrow> u)"

text \<open>\<^verbatim>\<open>startAd\<close>. \<open>rndInt\<close> is the number drawn (\<open>1\<close>, \<open>2\<close> or \<open>3\<close>), \<open>now\<close> the
  clock, \<open>sx\<close> and \<open>sy\<close> the size of the window. The result carries the tracking session
  once \<^verbatim>\<open>createEvent\<close> has returned it.\<close>

definition startAd ::
  "nat \<Rightarrow> int \<Rightarrow> int \<Rightarrow> int \<Rightarrow> player \<Rightarrow> (player \<times> session option) \<times> outcome" where
  "startAd rndInt now sx sy p =
     (case poi (parameters p) of
        None \<Rightarrow> ((p, None), Some SyntaxError)
      | Some poiId \<Rightarrow>
          (case videoSlot p of
             None \<Rightarrow> ((p, None), Some TypeError)
           | Some v \<Rightarrow>
               let audioToUse = changeAudioByPoi poiList poiId rndInt None;
                   p1 = p\<lparr>videoSlot :=
                          Some (v\<lparr>v_src := Some (attribute_text audioToUse), v_paused := False\<rparr>)\<rparr>
               in (case createEvent (config (parameters p1)) now sx sy of
                     Inl e \<Rightarrow> ((p1, None), Some e)
                   | Inr s0 \<Rightarrow>
                       (let events = trigger ''loaded_imp'' (Some ''i'') [] now s0;
                            r = and_then (callEvent ''AdStarted'' p1) (callEvent ''AdImpression'')
                        in ((fst r, Some events), snd r)))))"

subsection \<open>Sessions of the player\<close>





subsection \<open>Invariants of a tracking session\<close>



text \<open>What is left of the one confirmation a session may send: the confirmations sent,
  plus one while the click latch is still open.\<close>

definition budget :: "session \<Rightarrow> nat" where
  "budget s = length (confirmations s) + (if alreadyClicked s then 0 else 1)"

text \<open>The keys \<^verbatim>\<open>init_load\<close> stores as constant parameters.\<close>

definition screen_keys :: "string set" where
  "screen_keys = {''w'', ''h''}"

subsection \<open>Sample inputs\<close>

text \<open>A media element that plays WebM and nothing else, a player whose wrapper has
  subscribed to the five quartile events, and a tracking configuration.\<close>

definition sample_video :: video_element where
  "sample_video =
     \<lparr>v_src = None, v_currentTime = 0, v_duration = NaN, v_volume = 1, v_paused = True,
      v_width = None, v_height = None,
      canPlayType = (\<lambda>t. if t = ''video/webm'' then ''probably'' else '''')\<rparr>"

definition subscribed_player :: player where
  "subscribed_player =
     (subscribe 1 ''AdVideoStart'' (subscribe 2 ''AdVideoFirstQuartile''
       (subscribe 3 ''AdVideoMidpoint'' (subscribe 4 ''AdVideoThirdQuartile''
         (subscribe 5 ''AdVideoComplete'' VpaidVideoPlayer)))))\<lparr>videoSlot := Some sample_video\<rparr>"

definition sample_macro :: macro where
  "sample_macro =
     \<lparr>macro_url = ''https://tracker.example/track/click?b=1&r=https%3A%2F%2Fexample.org'',
      timestamp = ''1700000000'', gClick = ''https://exchange.example/confirm?id=7''\<rparr>"

definition sample_session :: session where
  "sample_session =
     \<lparr>allowRedirect = False, alreadyClicked = False, pos_interact = ''1_1'',
      constant_params = [], eventAlreadyFired = Map.empty, timeStart = 0,
      screenX = 320, screenY = 480, config_macro = sample_macro, aElement = False,
      pixels = []\<rparr>"

text \<open>More sample inputs: a session whose redirect is armed, as it would be had the
  arming listener run to its end, and a mouse click at a position.\<close>

definition armed_session :: session where
  "armed_session = sample_session\<lparr>allowRedirect := True, aElement := True\<rparr>"

definition click_at :: "rat \<Rightarrow> rat \<Rightarrow> dom_event" where
  "click_at x y = \<lparr>clientX = Some x, clientY = Some y, targetTouches = None\<rparr>"

text \<open>A player between \<^verbatim>\<open>initAd\<close> and \<^verbatim>\<open>startAd\<close>: element bound, payload parsed.\<close>

definition ready_player :: player where
  "ready_player =
     subscribed_player\<lparr>parameters :=
       \<lparr>videos = Some [\<lparr>m_url = ''a.mp4'', mimetype = ''video/unsupported''\<rparr>,
                       \<lparr>m_url = ''b.webm'', mimetype = ''video/webm''\<rparr>],
        poi = Some (Some ''spb7mc5cxgfp''), config = Some sample_macro, cc = None\<rparr>\<rparr>"

text \<open>A payload whose only candidate the sample element cannot play, the environment
  \<^verbatim>\<open>initAd\<close> gets, and a player initialised with a point of interest that is not in the
  table.\<close>

definition unsupported_payload :: ad_parameters where
  "unsupported_payload =
     \<lparr>videos = Some [\<lparr>m_url = ''a.mp4'', mimetype = ''video/unsupported''\<rparr>],
      poi = Some (Some ''spb7mc5cxgfp''), config = Some sample_macro, cc = None\<rparr>"

definition sample_env :: environmentVars where
  "sample_env = \<lparr>env_slot = True, env_videoSlot = Some sample_video\<rparr>"



section \<open>Properties\<close>

subsection \<open>Dispatching\<close>

lemma callEvent_bound:
  "eventsCallbacks p e = Some (Fn f) \<Longrightarrow>
     callEvent e p = (p\<lparr>trace := trace p @ [(e, f)]\<rparr>, None)"
  by (simp add: callEvent_def call_slot_def dom_def)

lemma callEvent_never_bound:
  "eventsCallbacks p e = None \<Longrightarrow> callEvent e p = (p, None)"
  by (simp add: callEvent_def dom_def)

text \<open>
  Claim C5. Dispatching an event invokes the bound callback if there is one and is
  otherwise a no-op that never raises, also after \<^verbatim>\<open>unsubscribe\<close> has cleared the
  subscription. The code does not do the last part: \<^verbatim>\<open>unsubscribe\<close> stores
  \<^verbatim>\<open>null\<close> under the key, the key stays present, and \<^verbatim>\<open>callEvent_\<close> calls
  \<^verbatim>\<open>null\<close>. For every player and every event name, a dispatch that follows an
  \<^verbatim>\<open>unsubscribe\<close> of that name throws a TypeError.
\<close>

theorem callEvent_after_unsubscribe_throws:
  "callEvent e (unsubscribe e p) = (unsubscribe e p, Some TypeError)"
  by (simp add: callEvent_def call_slot_def unsubscribe_def)

subsection \<open>Quartile events\<close>

lemma call_slot_cases:
  "call_slot e p = (p, Some TypeError) \<or>
   (\<exists>f. call_slot e p = (p\<lparr>trace := trace p @ [(e, f)]\<rparr>, None))"
  by (auto simp: call_slot_def split: option.splits callback_slot.splits)

lemma callEvent_cases:
  "callEvent e p = (p, None) \<or> callEvent e p = (p, Some TypeError) \<or>
   (\<exists>f. callEvent e p = (p\<lparr>trace := trace p @ [(e, f)]\<rparr>, None))"
  using call_slot_cases [of e p] by (auto simp: callEvent_def)

lemma callEvent_index [simp]:
  "lastQuartileIndex (fst (callEvent e p)) = lastQuartileIndex p"
  using callEvent_cases [of e p] by auto

lemma callEvent_quartile_calls:
  "e \<notin> set (map fst quartileEvents) \<Longrightarrow> quartile_calls (fst (callEvent e p)) = quartile_calls p"
  using callEvent_cases [of e p] by (auto simp: quartile_calls_def)

lemma durationChange_not_quartile: "''AdDurationChange'' \<notin> set (map fst quartileEvents)"
  by (simp add: quartileEvents_def)







subsection \<open>The rate policy of \<^verbatim>\<open>trigger\<close>\<close>


lemma addParams_not_in_scope: "''addParams'' \<notin> set names_in_scope"
  by (simp add: names_in_scope_def)

lemma triggerRedirection_throws: "triggerRedirection s = (s, Some ReferenceError)"
  by (simp add: triggerRedirection_def addParams_not_in_scope)

lemma getPosition_fields:
  "eventAlreadyFired (fst (getPosition e s)) = eventAlreadyFired s"
  "alreadyClicked (fst (getPosition e s)) = alreadyClicked s"
  "allowRedirect (fst (getPosition e s)) = allowRedirect s"
  "pixels (fst (getPosition e s)) = pixels s"
  "aElement (fst (getPosition e s)) = aElement s"
  "config_macro (fst (getPosition e s)) = config_macro s"
  by (auto simp: getPosition_def split: sum.splits option.splits prod.splits)

lemma handleRedirection_idle: "\<not> allowRedirect s \<Longrightarrow> handleRedirection s = (s, True)"
  by (simp add: handleRedirection_def)

lemma other_step_fields:
  assumes "\<not> allowRedirect s" and "\<And>n t ps now. op \<noteq> Trigger n t ps now"
  shows "eventAlreadyFired (session_step s op) = eventAlreadyFired s \<and>
         alreadyClicked (session_step s op) = alreadyClicked s \<and>
         allowRedirect (session_step s op) = allowRedirect s \<and>
         pixels (session_step s op) = pixels s"
  using assms
  by (cases op)
    (auto simp: getPosition_fields handleRedirection_idle init_load_def
      triggerRedirection_throws)


lemma trigger_fields:
  "allowRedirect (trigger n t ps now s) = allowRedirect s"
  "aElement (trigger n t ps now s) = aElement s"
  "config_macro (trigger n t ps now s) = config_macro s"
  by (auto simp: trigger_def Let_def loadPixel_def split: option.splits)










lemma trigger_latch:
  "alreadyClicked (trigger n t ps now s) =
     (alreadyClicked s \<or> (n = ''click'' \<and> trigger_allowed n s \<and> eventAlreadyFired s n = None))"
  by (auto simp: trigger_def Let_def loadPixel_def split: option.splits)





lemma sends_iff_allowed: "sends n t ps now s \<longleftrightarrow> trigger_allowed n s"
  by (auto simp: sends_def trigger_def Let_def loadPixel_def split: option.splits)



subsection \<open>The click gate\<close>

lemma confirmations_loadPixel_event [simp]:
  "confirmations (loadPixel (EventPixel n q) s) = confirmations s"
  by (simp add: confirmations_def loadPixel_def)

lemma trigger_confirmations: "confirmations (trigger n t ps now s) = confirmations s"
  by (auto simp: trigger_def Let_def confirmations_def loadPixel_def split: option.splits)

lemma trigger_latch_mono: "alreadyClicked s \<Longrightarrow> alreadyClicked (trigger n t ps now s)"
  by (simp add: trigger_latch)

lemma getPosition_confirmations: "confirmations (fst (getPosition e s)) = confirmations s"
  by (simp add: confirmations_def getPosition_fields)

lemma handleRedirection_budget: "budget (fst (handleRedirection s)) \<le> budget s"
  by (auto simp: handleRedirection_def budget_def Let_def confirmations_def loadPixel_def)

lemma step_budget: "budget (session_step s op) \<le> budget s"
proof (cases op)
  case (Trigger n t ps now)
  then show ?thesis
    by (auto simp: budget_def trigger_confirmations trigger_latch)
next
  case DOMContentLoaded
  then show ?thesis by (simp add: budget_def init_load_def confirmations_def)
next
  case (Interaction e)
  then show ?thesis by (simp add: budget_def getPosition_confirmations getPosition_fields)
next
  case (AnchorClick e)
  have "budget (fst (getPosition e s)) = budget s"
    by (simp add: budget_def getPosition_confirmations getPosition_fields)
  with handleRedirection_budget [of "fst (getPosition e s)"] AnchorClick show ?thesis by simp
next
  case ArmingClick
  then show ?thesis by (simp add: triggerRedirection_throws)
qed

lemma run_budget: "budget (run_session s ops) \<le> budget s"
proof (induction ops rule: rev_induct)
  case Nil
  show ?case by (simp add: run_session_def)
next
  case (snoc op ops)
  have "budget (run_session s (ops @ [op])) \<le> budget (run_session s ops)"
    by (simp add: run_session_def step_budget)
  with snoc show ?case by simp
qed

lemma init_load_confirmations: "confirmations (init_load s) = confirmations s"
  by (simp add: init_load_def confirmations_def)

lemma step_confirmation_only_when_armed:
  assumes "confirmations (session_step s op) \<noteq> confirmations s"
  shows "(case op of AnchorClick e \<Rightarrow> True | _ \<Rightarrow> False) \<and> allowRedirect s \<and> \<not> alreadyClicked s"
proof (cases op)
  case (AnchorClick e)
  with assms show ?thesis
    by (auto simp: handleRedirection_def getPosition_fields getPosition_confirmations
        split: if_splits)
qed (use assms in \<open>auto simp: trigger_confirmations getPosition_confirmations
      init_load_confirmations triggerRedirection_throws split: if_splits\<close>)

lemma run_consumed:
  "alreadyClicked s \<Longrightarrow> confirmations (run_session s ops) = confirmations s \<and>
     alreadyClicked (run_session s ops)"
proof (induction ops rule: rev_induct)
  case Nil
  then show ?case by (simp add: run_session_def)
next
  case (snoc op ops)
  let ?s = "run_session s ops"
  from snoc have c: "alreadyClicked ?s" and e: "confirmations ?s = confirmations s" by auto
  have "confirmations (session_step ?s op) = confirmations ?s"
    using step_confirmation_only_when_armed [of ?s op] c by blast
  moreover have "alreadyClicked (session_step ?s op)"
    using step_budget [of ?s op] c \<open>confirmations (session_step ?s op) = confirmations ?s\<close>
    by (auto simp: budget_def split: if_splits)
  ultimately show ?case using e by (simp add: run_session_def)
qed

text \<open>
  Claim C3. From any state of a session and over any run of operations, at most one
  more confirmation pixel is sent, and none once the click latch is set. A step sends
  one only if it is a click on the anchor made while the redirect is armed and the latch
  is open. A click on the anchor while no redirect is armed (or after the latch is set)
  calls \<^verbatim>\<open>preventDefault\<close> and changes nothing.
\<close>

theorem confirmation_pixel_at_most_once:
  "length (confirmations (run_session s ops)) \<le> Suc (length (confirmations s)) \<and>
   (alreadyClicked s \<longrightarrow> confirmations (run_session s ops) = confirmations s) \<and>
   (confirmations (session_step s op) \<noteq> confirmations s \<longrightarrow>
      (case op of AnchorClick e \<Rightarrow> True | _ \<Rightarrow> False) \<and> allowRedirect s \<and> \<not> alreadyClicked s) \<and>
   (\<not> allowRedirect s \<or> alreadyClicked s \<longrightarrow> handleRedirection s = (s, True))"
proof -
  have "length (confirmations (run_session s ops)) \<le> budget (run_session s ops)"
    by (simp add: budget_def)
  also have "\<dots> \<le> budget s" by (rule run_budget)
  also have "\<dots> \<le> Suc (length (confirmations s))" by (simp add: budget_def)
  finally have 1: "length (confirmations (run_session s ops)) \<le> Suc (length (confirmations s))" .
  have 4: "\<not> allowRedirect s \<or> alreadyClicked s \<longrightarrow> handleRedirection s = (s, True)"
    by (auto simp: handleRedirection_def)
  from 1 run_consumed [of s ops] step_confirmation_only_when_armed [of s op] 4
  show ?thesis by blast
qed

theorem confirmation_pixel_at_most_once_witness:
  "confirmations (session_step armed_session (AnchorClick (click_at 10 20))) =
     [UrlPixel ''https://exchange.example/confirm?id=7''] \<and>
   confirmations (run_session (session_step armed_session (AnchorClick (click_at 10 20)))
      [AnchorClick (click_at 10 20)]) = [UrlPixel ''https://exchange.example/confirm?id=7''] \<and>
   handleRedirection sample_session = (sample_session, True)"
proof -
  let ?s = "session_step armed_session (AnchorClick (click_at 10 20))"
  have a: "confirmations ?s = [UrlPixel ''https://exchange.example/confirm?id=7'']"
    by (simp add: armed_session_def sample_session_def sample_macro_def click_at_def
        getPosition_def coordinate_def handleRedirection_def loadPixel_def confirmations_def)
  have c: "alreadyClicked ?s"
    by (simp add: armed_session_def sample_session_def sample_macro_def click_at_def
        getPosition_def coordinate_def handleRedirection_def loadPixel_def)
  have i: "\<not> allowRedirect sample_session" by (simp add: sample_session_def)
  from confirmation_pixel_at_most_once [of ?s "[AnchorClick (click_at 10 20)]" ArmingClick] c a
    confirmation_pixel_at_most_once [of sample_session "[]" ArmingClick] i
  show ?thesis by simp
qed

subsection \<open>The click gate in a session started by the player\<close>

lemma step_idle: "\<not> allowRedirect s \<Longrightarrow> \<not> allowRedirect (session_step s op)"
proof (cases "\<exists>n t ps now. op = Trigger n t ps now")
  case True
  assume "\<not> allowRedirect s"
  with True show ?thesis by (auto simp: trigger_fields)
next
  case False
  assume "\<not> allowRedirect s"
  with False other_step_fields [of s op] show ?thesis by auto
qed

lemma run_idle:
  "\<not> allowRedirect s \<Longrightarrow>
     \<not> allowRedirect (run_session s ops) \<and> confirmations (run_session s ops) = confirmations s"
proof (induction ops rule: rev_induct)
  case Nil
  then show ?case by (simp add: run_session_def)
next
  case (snoc op ops)
  let ?s = "run_session s ops"
  from snoc have i: "\<not> allowRedirect ?s" and c: "confirmations ?s = confirmations s" by auto
  from step_confirmation_only_when_armed [of ?s op] i
  have "confirmations (session_step ?s op) = confirmations ?s" by blast
  with step_idle [OF i, of op] c show ?case by (simp add: run_session_def)
qed

lemma startAd_session:
  assumes "startAd rndInt now sx sy p = ((p', Some s0), out)"
  shows "\<exists>c. createEvent (config (parameters p)) now sx sy = Inr c \<and>
             s0 = trigger ''loaded_imp'' (Some ''i'') [] now c"
  using assms
  by (auto simp: startAd_def Let_def split: option.splits sum.splits)

lemma createEvent_fresh:
  "createEvent cfg now sx sy = Inr c \<Longrightarrow>
     \<not> allowRedirect c \<and> \<not> alreadyClicked c \<and> pixels c = [] \<and> eventAlreadyFired c = Map.empty \<and>
     constant_params c = [] \<and> timeStart c = now"
  by (auto simp: createEvent_def split: option.splits)

text \<open>
  Claim C4. \<^verbatim>\<open>startAd\<close> creates the session and makes one call on it,
  \<^verbatim>\<open>trigger('loaded_imp', 'i')\<close>. Whatever happens to that session afterwards (further
  triggers, the page load, interactions, clicks on the anchor, and even clicks on an
  element armed with \<^verbatim>\<open>clickCustom\<close>, which nothing in the script sets up), the
  redirect is never armed, no confirmation pixel is sent, a click on the anchor is
  answered with \<^verbatim>\<open>preventDefault\<close>, and the arming listener throws a ReferenceError
  and changes nothing, since \<^verbatim>\<open>addParams\<close> is not a name in its scope.
\<close>

theorem click_gate_never_armed:
  assumes "startAd rndInt now sx sy p = ((p', Some s0), out)"
  shows "(\<exists>q. pixels s0 = [EventPixel ''loaded_imp'' q]) \<and>
         \<not> allowRedirect (run_session s0 ops) \<and>
         confirmations (run_session s0 ops) = [] \<and>
         handleRedirection (run_session s0 ops) = (run_session s0 ops, True) \<and>
         triggerRedirection (run_session s0 ops) = (run_session s0 ops, Some ReferenceError)"
proof -
  from startAd_session [OF assms] obtain c where
    c: "createEvent (config (parameters p)) now sx sy = Inr c" and
    s0: "s0 = trigger ''loaded_imp'' (Some ''i'') [] now c" by blast
  note fresh = createEvent_fresh [OF c]
  have px: "\<exists>q. pixels s0 = [EventPixel ''loaded_imp'' q]"
    using fresh by (simp add: s0 trigger_def trigger_allowed_def Let_def loadPixel_def)
  have idle0: "\<not> allowRedirect s0" using fresh by (simp add: s0 trigger_fields)
  have "confirmations c = []" using fresh by (simp add: confirmations_def)
  then have conf0: "confirmations s0 = []" by (simp add: s0 trigger_confirmations)
  from run_idle [OF idle0, of ops] conf0 px show ?thesis
    by (simp add: handleRedirection_idle triggerRedirection_throws)
qed

theorem click_gate_never_armed_witness:
  "\<not> allowRedirect (run_session (the (snd (fst (startAd 2 1000 320 480 ready_player))))
        [DOMContentLoaded, ArmingClick, AnchorClick (click_at 10 20)]) \<and>
   confirmations (run_session (the (snd (fst (startAd 2 1000 320 480 ready_player))))
        [DOMContentLoaded, ArmingClick, AnchorClick (click_at 10 20)]) = []"
proof -
  let ?r = "startAd 2 1000 320 480 ready_player"
  have "snd (fst ?r) \<noteq> None"
    by (simp add: startAd_def ready_player_def subscribed_player_def createEvent_def Let_def)
  then have "?r = ((fst (fst ?r), Some (the (snd (fst ?r)))), snd ?r)"
    by (simp add: prod_eq_iff)
  from click_gate_never_armed [OF this] show ?thesis by blast
qed

subsection \<open>The elapsed-time parameter\<close>

lemma map_of_obj_set: "map_of (obj_set k v xs) k' = (if k' = k then Some v else map_of xs k')"
  by (induction xs) auto

lemma map_of_merge_absent:
  "k \<notin> fst ` set from_obj \<Longrightarrow> map_of (mergeTwoObjects to_obj from_obj) k = map_of to_obj k"
  by (induction from_obj arbitrary: to_obj) (auto simp: map_of_obj_set)

lemma addParams_t:
  "''t'' \<notin> fst ` set (constant_params s) \<Longrightarrow>
     map_of (addParams eventType oParams now s) ''t'' = Some (N (elapsed_seconds (timeStart s) now))"
  by (simp add: addParams_def Let_def map_of_merge_absent map_of_obj_set)

lemma elapsed_seconds_round:
  "elapsed_seconds start now = round (min (of_int (now - start) / 1000) (3000::rat))"
  by (simp add: elapsed_seconds_def Let_def round_def min_def not_less)


lemma floor_half_up: "\<lfloor>(of_int a :: rat) / 1000 + 1 / 2\<rfloor> = (a + 500) div 1000"
proof -
  have "(of_int a :: rat) / 1000 + 1 / 2 = of_int (a + 500) / of_int 1000" by simp
  then show ?thesis by (simp only: floor_divide_of_int_eq)
qed

lemma clamp_and_round:
  "(let t = (of_int d :: rat) / 1000; t = (if 3000 < t then 3000 else t) in \<lfloor>t + 1 / 2\<rfloor>) =
     (if 3000000 < d then 3000 else (d + 500) div 1000)"
proof -
  have a: "\<lfloor>(3000 :: rat) + 1 / 2\<rfloor> = 3000"
    using floor_half_up [of 3000000] by simp
  have "(3000 < (of_int d :: rat) / 1000) = ((of_int 3000000 :: rat) < of_int d)"
    by (simp add: less_divide_eq)
  then have b: "(3000 < (of_int d :: rat) / 1000) = (3000000 < d)"
    by (simp only: of_int_less_iff)
  show ?thesis
    unfolding Let_def b using a floor_half_up [of d] by simp
qed

lemma elapsed_seconds_int:
  "elapsed_seconds start now =
     (if 3000000 < now - start then 3000 else (now - start + 500) div 1000)"
  unfolding elapsed_seconds_def by (rule clamp_and_round)

lemma fst_set_obj_set: "fst ` set (obj_set k v xs) = insert k (fst ` set xs)"
  by (induction xs) auto

lemma init_load_constants:
  "fst ` set (constant_params (init_load s)) = screen_keys \<union> fst ` set (constant_params s)"
  by (auto simp: init_load_def fst_set_obj_set screen_keys_def)

lemma init_load_timeStart: "timeStart (init_load s) = timeStart s"
  by (simp add: init_load_def)

lemma trigger_constants:
  "constant_params (trigger n t ps now s) = constant_params s \<and>
   timeStart (trigger n t ps now s) = timeStart s"
  by (auto simp: trigger_def Let_def loadPixel_def split: option.splits)

lemma getPosition_constants:
  "constant_params (fst (getPosition e s)) = constant_params s \<and>
   timeStart (fst (getPosition e s)) = timeStart s"
  by (auto simp: getPosition_def split: sum.splits option.splits prod.splits)

lemma handleRedirection_constants:
  "constant_params (fst (handleRedirection s)) = constant_params s \<and>
   timeStart (fst (handleRedirection s)) = timeStart s"
  by (auto simp: handleRedirection_def Let_def loadPixel_def)

lemma step_constants:
  "timeStart (session_step s op) = timeStart s \<and>
   fst ` set (constant_params (session_step s op)) \<subseteq> screen_keys \<union> fst ` set (constant_params s)"
proof (cases op)
  case (Trigger n t ps now)
  then show ?thesis by (simp add: trigger_constants)
next
  case DOMContentLoaded
  then show ?thesis by (simp add: init_load_constants init_load_timeStart)
next
  case (Interaction e)
  then show ?thesis by (simp add: getPosition_constants)
next
  case (AnchorClick e)
  then show ?thesis by (simp add: getPosition_constants handleRedirection_constants)
next
  case ArmingClick
  then show ?thesis by (simp add: triggerRedirection_throws)
qed

lemma subset_union_chain: "A \<subseteq> W \<union> B \<Longrightarrow> B \<subseteq> W \<union> C \<Longrightarrow> A \<subseteq> W \<union> C"
  by blast

lemma run_session_snoc: "run_session s (xs @ [x]) = session_step (run_session s xs) x"
  by (simp add: run_session_def)

lemma run_constants:
  "timeStart (run_session s xs) = timeStart s \<and>
   fst ` set (constant_params (run_session s xs)) \<subseteq> screen_keys \<union> fst ` set (constant_params s)"
proof (induction xs rule: rev_induct)
  case Nil
  show ?case by (simp add: run_session_def)
next
  case (snoc x xs)
  note st = step_constants [of "run_session s xs" x]
  note a = st [THEN conjunct1] and b = st [THEN conjunct2]
  note c = snoc.IH [THEN conjunct1] and d = snoc.IH [THEN conjunct2]
  have "timeStart (run_session s (xs @ [x])) = timeStart s"
    by (simp only: run_session_snoc a c)
  moreover have "fst ` set (constant_params (run_session s (xs @ [x]))) \<subseteq>
      screen_keys \<union> fst ` set (constant_params s)"
    unfolding run_session_snoc by (rule subset_union_chain [OF b d])
  ultimately show ?case by (rule conjI)
qed

lemma trigger_pixel_t:
  assumes "trigger_allowed n s" and "''t'' \<notin> fst ` set (constant_params s)"
  shows "\<exists>q. pixels (trigger n t ps now s) = pixels s @ [EventPixel n q] \<and>
             map_of q ''t'' = Some (N (elapsed_seconds (timeStart s) now))"
proof (cases "eventAlreadyFired s n")
  case None
  with assms show ?thesis
    by (simp add: trigger_def Let_def loadPixel_def addParams_t)
next
  case (Some r0)
  with assms show ?thesis
    by (simp add: trigger_def Let_def loadPixel_def addParams_t)
qed

text \<open>
  Claim C7. Whenever \<^verbatim>\<open>trigger\<close> sends a pixel in a session, the parameter
  \<^verbatim>\<open>t\<close> of that pixel is the time since the session was created, in seconds, cut at
  3000 and then rounded to the nearest integer: 5 after 5000 milliseconds, 3000 after
  3500 seconds.
\<close>

theorem elapsed_time_parameter:
  assumes "createEvent cfg now0 sx sy = Inr s0"
  shows "(sends n t ps now (run_session s0 ops) \<longrightarrow>
            (\<exists>q. pixels (trigger n t ps now (run_session s0 ops)) =
                    pixels (run_session s0 ops) @ [EventPixel n q] \<and>
                  map_of q ''t'' =
                    Some (N (round (min (of_int (now - now0) / 1000) (3000 :: rat)))))) \<and>
         elapsed_seconds now0 (now0 + 5000) = 5 \<and>
         elapsed_seconds now0 (now0 + 3500 * 1000) = 3000"
proof -
  let ?s = "run_session s0 ops"
  note fresh = createEvent_fresh [OF assms]
  from run_constants [of s0 ops] fresh
  have ts: "timeStart ?s = now0" and "fst ` set (constant_params ?s) \<subseteq> screen_keys"
    by simp_all
  moreover have "''t'' \<notin> screen_keys" by (simp add: screen_keys_def)
  ultimately have cp: "''t'' \<notin> fst ` set (constant_params ?s)" by blast
  have "\<exists>q. pixels (trigger n t ps now ?s) = pixels ?s @ [EventPixel n q] \<and>
           map_of q ''t'' = Some (N (round (min (of_int (now - now0) / 1000) (3000 :: rat))))"
    if "sends n t ps now ?s"
  proof -
    from that have "trigger_allowed n ?s" by (simp add: sends_iff_allowed)
    from trigger_pixel_t [OF this cp, of t ps now] ts show ?thesis
      by (simp add: elapsed_seconds_round)
  qed
  moreover have "elapsed_seconds now0 (now0 + 5000) = 5"
    by (simp add: elapsed_seconds_int)
  moreover have "elapsed_seconds now0 (now0 + 3500 * 1000) = 3000"
    by (simp add: elapsed_seconds_int)
  ultimately show ?thesis by blast
qed

theorem elapsed_time_parameter_witness:
  "(\<exists>q. pixels (trigger ''tap'' (Some ''i'') [] 5000 (run_session sample_session [DOMContentLoaded])) =
          pixels (run_session sample_session [DOMContentLoaded]) @ [EventPixel ''tap'' q] \<and>
        map_of q ''t'' = Some (N 5)) \<and>
   (\<exists>q. pixels (trigger ''tap'' (Some ''i'') [] 3500000 (run_session sample_session [DOMContentLoaded])) =
          pixels (run_session sample_session [DOMContentLoaded]) @ [EventPixel ''tap'' q] \<and>
        map_of q ''t'' = Some (N 3000))"
proof -
  have c: "createEvent (Some sample_macro) 0 320 480 = Inr sample_session"
    by (simp add: createEvent_def sample_session_def)
  have s: "sends ''tap'' (Some ''i'') [] now (run_session sample_session [DOMContentLoaded])" for now
    by (simp add: sends_iff_allowed trigger_allowed_def run_session_def init_load_def
        sample_session_def)
  have "elapsed_seconds 0 5000 = 5" by (simp add: elapsed_seconds_int)
  then have r1: "round (min (of_int (5000 - 0) / 1000) (3000 :: rat)) = 5"
    unfolding elapsed_seconds_round .
  have "elapsed_seconds 0 3500000 = 3000" by (simp add: elapsed_seconds_int)
  then have r2: "round (min (of_int (3500000 - 0) / 1000) (3000 :: rat)) = 3000"
    unfolding elapsed_seconds_round .
  from elapsed_time_parameter [OF c, of "''tap''" "Some ''i''" "[]" 5000 "[DOMContentLoaded]"] s
  have 1: "\<exists>q. pixels (trigger ''tap'' (Some ''i'') [] 5000 (run_session sample_session [DOMContentLoaded])) =
          pixels (run_session sample_session [DOMContentLoaded]) @ [EventPixel ''tap'' q] \<and>
        map_of q ''t'' = Some (N 5)"
    unfolding r1 by blast
  from elapsed_time_parameter [OF c, of "''tap''" "Some ''i''" "[]" 3500000 "[DOMContentLoaded]"] s
  have 2: "\<exists>q. pixels (trigger ''tap'' (Some ''i'') [] 3500000 (run_session sample_session [DOMContentLoaded])) =
          pixels (run_session sample_session [DOMContentLoaded]) @ [EventPixel ''tap'' q] \<and>
        map_of q ''t'' = Some (N 3000)"
    unfolding r2 by blast
  from 1 2 show ?thesis by (rule conjI)
qed

subsection \<open>Interaction positions\<close>

lemma getPosition_mouse:
  "x \<noteq> 0 \<Longrightarrow> y \<noteq> 0 \<Longrightarrow>
     getPosition (click_at x y) s =
       (s\<lparr>pos_interact := percent_text x (screenX s) @ ''_'' @ percent_text y (screenY s)\<rparr>, None)"
  by (simp add: getPosition_def coordinate_def click_at_def)

lemma getPosition_fallback:
  "getPosition \<lparr>clientX = None, clientY = None,
                targetTouches = Some (\<lparr>t_clientX = None, t_clientY = ty\<rparr> # ts)\<rparr> s =
     (s\<lparr>pos_interact := ''0_0''\<rparr>, None)"
  by (simp add: getPosition_def coordinate_def split: option.splits)

text \<open>
  Claim C9. The position handler recomputes the position from the event and falls back to
  \<^verbatim>\<open>"0_0"\<close> when the coordinates are not numbers, and it never throws. The code does
  not keep the last part. A coordinate of \<open>0\<close> counts as missing, so a mouse click on
  the left edge of the window makes the handler read \<^verbatim>\<open>evt.targetTouches[0]\<close>, which a
  mouse event does not have; a touch event whose list of target touches is empty does the
  same. In both cases the handler throws a TypeError and the position stays as it was.
\<close>

theorem getPosition_throws:
  "getPosition (click_at 0 50) s = (s, Some TypeError) \<and>
   getPosition \<lparr>clientX = None, clientY = None, targetTouches = Some []\<rparr> s = (s, Some TypeError)"
  by (simp add: getPosition_def coordinate_def click_at_def)

subsection \<open>Media source selection\<close>

lemma select_source_none:
  "\<forall>m \<in> set ms. canPlayType v (mimetype m) = '''' \<Longrightarrow> select_source v ms = (v, False)"
  by (induction ms) auto

lemma select_source_first:
  "\<forall>m \<in> set pre. canPlayType v (mimetype m) = '''' \<Longrightarrow> canPlayType v (mimetype m) \<noteq> '''' \<Longrightarrow>
     select_source v (pre @ m # post) = (v\<lparr>v_src := Some (m_url m)\<rparr>, True)"
  by (induction pre) auto

lemma initAd_selects_first:
  assumes "videos ps = Some (pre @ m # post)"
    and "\<forall>m \<in> set pre. canPlayType v (mimetype m) = ''''" and "canPlayType v (mimetype m) \<noteq> ''''"
    and "eventsCallbacks p ''AdLoaded'' \<noteq> Some Null"
  shows "\<exists>p'. initAd w h vm b (Some ps) \<lparr>env_slot = sl, env_videoSlot = Some v\<rparr> created p = (p', None) \<and>
           map_option v_src (videoSlot p') = Some (Some (m_url m)) \<and>
           filter (\<lambda>e. fst e = ''AdError'') (trace p') = filter (\<lambda>e. fst e = ''AdError'') (trace p)"
  using assms select_source_first [of pre v m post]
  by (cases "eventsCallbacks p ''AdLoaded''")
    (auto simp: initAd_def updateVideoSlot_def and_then_def callEvent_def call_slot_def Let_def dom_def
      split: callback_slot.splits)

lemma initAd_no_source:
  assumes "videos ps = Some ms" and "\<forall>m \<in> set ms. canPlayType v (mimetype m) = ''''"
    and "eventsCallbacks p ''AdError'' = Some (Fn f)"
    and "eventsCallbacks p ''AdLoaded'' \<noteq> Some Null"
  shows "\<exists>p'. initAd w h vm b (Some ps) \<lparr>env_slot = sl, env_videoSlot = Some v\<rparr> created p = (p', None) \<and>
           map_option v_src (videoSlot p') = Some (v_src v) \<and>
           filter (\<lambda>e. fst e = ''AdError'') (trace p') =
             filter (\<lambda>e. fst e = ''AdError'') (trace p) @ [(''AdError'', f)]"
  using assms select_source_none [of ms v]
  by (cases "eventsCallbacks p ''AdLoaded''")
    (auto simp: initAd_def updateVideoSlot_def and_then_def callEvent_def call_slot_def Let_def dom_def
      split: callback_slot.splits)

text \<open>
  Claim C6. \<^verbatim>\<open>initAd\<close> makes the first playable candidate the source; with no
  playable candidate it dispatches one Error event, sets no source and does not throw.
  The selection and the single dispatch are the two lemmas above. The last part fails
  when the wrapper has unsubscribed from \<^verbatim>\<open>AdError\<close>: the dispatch then calls
  \<^verbatim>\<open>null\<close>, and \<^verbatim>\<open>initAd\<close> throws a TypeError.
\<close>

theorem initAd_throws_when_error_unsubscribed:
  "snd (initAd 640 360 ''normal'' 256 (Some unsupported_payload) sample_env sample_video
          (unsubscribe ''AdError'' VpaidVideoPlayer)) = Some TypeError"
  by (simp add: initAd_def updateVideoSlot_def and_then_def callEvent_def call_slot_def
      unsubscribe_def VpaidVideoPlayer_def unsupported_payload_def sample_env_def
      sample_video_def Let_def)

subsection \<open>Starting with an unknown point of interest\<close>
















subsection \<open>The stored volume\<close>















end
